theory Spec2Isabelle
  imports Main
begin

section \<open>The world the supervisor runs in\<close>

text \<open>
  \<^verbatim>\<open>TradeBot.cpp\<close> is a single \<^verbatim>\<open>main\<close> that talks to its environment only: it removes a
  file, writes lines to the two console streams, starts a subprocess with \<^verbatim>\<open>system\<close> and
  sleeps. The model threads a \<open>world\<close> through these calls. Every call appends the effect it
  has to \<open>trace\<close>, so that the order of the effects can be read off afterwards.

  A path is, as far as \<^verbatim>\<open>remove\<close> can tell, in one of three states: there is no file, there
  is a file that can be deleted, or there is one that cannot (permissions, a path that is
  not valid, ...).
\<close>

datatype file_state = Absent | Removable | Undeletable

datatype event =
    Remove string     \<comment> \<open>\<^verbatim>\<open>remove(path)\<close>\<close>
  | Stdout string     \<comment> \<open>one statement writing to \<^verbatim>\<open>std::cout\<close>\<close>
  | Stderr string     \<comment> \<open>one statement writing to \<^verbatim>\<open>std::cerr\<close>\<close>
  | System string     \<comment> \<open>\<^verbatim>\<open>system(command)\<close>\<close>
  | Sleep nat         \<comment> \<open>\<^verbatim>\<open>std::this_thread::sleep_for(std::chrono::seconds(n))\<close>\<close>

record world =
  files :: "string \<Rightarrow> file_state"
  trace :: "event list"
  calls :: nat        \<comment> \<open>how many subprocesses have been started so far\<close>

text \<open>
  The subprocess is opaque. Whatever it does is given from outside: for the \<open>k\<close>-th
  invocation, the command line and the files it finds, the value \<^verbatim>\<open>system\<close> returns and the
  files it leaves behind. A command that cannot be launched at all is one of these
  behaviours (\<^verbatim>\<open>system\<close> then returns \<open>-1\<close>, or the shell's status for "not found").
\<close>

type_synonym subprocess =
  "nat \<Rightarrow> string \<Rightarrow> (string \<Rightarrow> file_state) \<Rightarrow> int \<times> (string \<Rightarrow> file_state)"

subsection \<open>The library calls\<close>

text \<open>
  \<^verbatim>\<open>remove\<close> of the C library: \<open>0\<close> when the file has been deleted, a value other than \<open>0\<close>
  when it has not, and then nothing has changed.
\<close>

definition c_remove :: "string \<Rightarrow> world \<Rightarrow> int \<times> world" where
  "c_remove p w =
     (case files w p of
        Removable \<Rightarrow> (0, w\<lparr>files := (files w)(p := Absent), trace := trace w @ [Remove p]\<rparr>)
      | Absent \<Rightarrow> (- 1, w\<lparr>trace := trace w @ [Remove p]\<rparr>)
      | Undeletable \<Rightarrow> (- 1, w\<lparr>trace := trace w @ [Remove p]\<rparr>))"

text \<open>
  A statement \<^verbatim>\<open>std::cout << a << b << c\<close> is one \<open>Stdout\<close> event that holds the text
  \<open>a @ b @ c\<close>.
\<close>

definition cout :: "string \<Rightarrow> world \<Rightarrow> world" where
  "cout s w = w\<lparr>trace := trace w @ [Stdout s]\<rparr>"

definition cerr :: "string \<Rightarrow> world \<Rightarrow> world" where
  "cerr s w = w\<lparr>trace := trace w @ [Stderr s]\<rparr>"

text \<open>
  \<^verbatim>\<open>system\<close> blocks until the subprocess is over and returns its status: in the model it
  is one step, and the status is there before the next statement runs.
\<close>

definition system :: "subprocess \<Rightarrow> string \<Rightarrow> world \<Rightarrow> int \<times> world" where
  "system sp cmd w =
     (let (r, fs) = sp (calls w) cmd (files w)
      in (r, w\<lparr>files := fs, trace := trace w @ [System cmd], calls := Suc (calls w)\<rparr>))"

definition sleep_for :: "nat \<Rightarrow> world \<Rightarrow> world" where
  "sleep_for n w = w\<lparr>trace := trace w @ [Sleep n]\<rparr>"

section \<open>The program\<close>

text \<open>
  \<^verbatim>\<open>main\<close> fixes \<^verbatim>\<open>ticker\<close> in its first line and never assigns it again. The parts of
  \<^verbatim>\<open>main\<close> below take the ticker as an argument \<open>t\<close>; \<open>main\<close> itself runs them at \<open>ticker\<close>.
\<close>

definition ticker :: string where
  "ticker = ''SPY''"

definition csvFilename_of :: "string \<Rightarrow> string" where
  "csvFilename_of t = t @ ''_stock_data.csv''"

definition csvFilename :: string where
  "csvFilename = csvFilename_of ticker"

text \<open>Lines 11 to 17: delete the CSV file of an earlier run, and say what happened.\<close>

definition state_reset :: "string \<Rightarrow> world \<Rightarrow> world" where
  "state_reset t w =
     (let (r, w1) = c_remove (csvFilename_of t) w
      in if r = 0
         then cout (''Deleted old CSV file: '' @ csvFilename_of t @ ''\<newline>'') w1
         else cout ''No CSV file to delete or failed to delete.\<newline>'' w1)"

text \<open>Line 19: the message printed once, before the loop.\<close>

definition announce :: "string \<Rightarrow> world \<Rightarrow> world" where
  "announce t w =
     cout (''Starting stock data scraper for '' @ t @ '' every 60 seconds...\<newline>'') w"

text \<open>Lines 25 to 30: the branch on the value that \<^verbatim>\<open>system\<close> returned.\<close>

definition report_status :: "int \<Rightarrow> world \<Rightarrow> world" where
  "report_status r w =
     (if r = 0
      then cout ''Stock data scraped successfully.\<newline>'' w
      else cerr ''Failed to run the Python script.\<newline>'' w)"

text \<open>Lines 22 to 34: the body of the loop.\<close>

definition cycle :: "subprocess \<Rightarrow> string \<Rightarrow> world \<Rightarrow> world" where
  "cycle sp t w =
     (let w1 = cout (''Running Python scraper for '' @ t @ ''...\<newline>'') w;
          (r, w2) = system sp (''python scraper.py '' @ t) w1;
          w3 = report_status r w2;
          w4 = cout ''Waiting 15 seconds...\<newline>'' w3
      in sleep_for 15 w4)"

text \<open>
  Lines 21 to 35: \<^verbatim>\<open>while (true)\<close> with no \<^verbatim>\<open>break\<close> and no \<^verbatim>\<open>return\<close> in its body. The
  result is the world in which the loop is left, \<open>None\<close> when it is never left.
\<close>

partial_function (option) supervisor_loop :: "subprocess \<Rightarrow> string \<Rightarrow> world \<Rightarrow> world option"
where
  "supervisor_loop sp t w = supervisor_loop sp t (cycle sp t w)"

text \<open>The whole of \<^verbatim>\<open>main\<close>; \<^verbatim>\<open>return 0\<close> stands behind the loop.\<close>

definition main_from :: "subprocess \<Rightarrow> string \<Rightarrow> world \<Rightarrow> (int \<times> world) option" where
  "main_from sp t w =
     (case supervisor_loop sp t (announce t (state_reset t w)) of
        None \<Rightarrow> None
      | Some w' \<Rightarrow> Some (0, w'))"

definition main :: "subprocess \<Rightarrow> world \<Rightarrow> (int \<times> world) option" where
  "main sp w = main_from sp ticker w"

subsection \<open>The run, cycle by cycle\<close>

text \<open>
  \<open>cycles n\<close> is the world in which the loop stands at its head for the \<open>n\<close>-th time after
  it was entered in \<open>w\<close>, and \<open>run sp t n w\<close> the world \<^verbatim>\<open>main\<close> has reached when \<open>n\<close> cycles
  are over.
\<close>

primrec cycles :: "nat \<Rightarrow> subprocess \<Rightarrow> string \<Rightarrow> world \<Rightarrow> world" where
  "cycles 0 sp t w = w"
| "cycles (Suc n) sp t w = cycles n sp t (cycle sp t w)"

definition run :: "subprocess \<Rightarrow> string \<Rightarrow> nat \<Rightarrow> world \<Rightarrow> world" where
  "run sp t n w = cycles n sp t (announce t (state_reset t w))"

subsection \<open>Reading a trace\<close>

text \<open>The calls of a trace that touch a file, the commands started, and the pauses.\<close>

fun file_ops :: "event list \<Rightarrow> string list" where
  "file_ops [] = []"
| "file_ops (Remove p # es) = p # file_ops es"
| "file_ops (e # es) = file_ops es"

fun commands :: "event list \<Rightarrow> string list" where
  "commands [] = []"
| "commands (System c # es) = c # commands es"
| "commands (e # es) = commands es"

fun sleeps :: "event list \<Rightarrow> nat list" where
  "sleeps [] = []"
| "sleeps (Sleep n # es) = n # sleeps es"
| "sleeps (e # es) = sleeps es"

fun messages :: "event list \<Rightarrow> string list" where
  "messages [] = []"
| "messages (Stdout s # es) = s # messages es"
| "messages (Stderr s # es) = s # messages es"
| "messages (e # es) = messages es"

text \<open>The events a step has added to the trace it started from.\<close>

definition new_events :: "world \<Rightarrow> world \<Rightarrow> event list" where
  "new_events w w' = drop (length (trace w)) (trace w')"

section \<open>The words of the specification\<close>

text \<open>
  The specification speaks of a \<open>CycleOutcome\<close>, which the source has no type for: its
  section 4.2 classifies the exit status (step 3: the status \<open>0\<close> is Success, any other
  value, or a command that could not be launched, is Failure) and then reports the
  outcome (step 4: a success message, or an error-level message). The two definitions below
  follow these words, with the texts and streams of the source's two messages; they are
  compared with \<open>report_status\<close> and \<open>cycle\<close> further down.
\<close>

datatype CycleOutcome = Success | Failure

definition classify :: "int \<Rightarrow> CycleOutcome" where
  "classify status = (if status = 0 then Success else Failure)"

fun outcome_event :: "CycleOutcome \<Rightarrow> event" where
  "outcome_event Success = Stdout ''Stock data scraped successfully.\<newline>''"
| "outcome_event Failure = Stderr ''Failed to run the Python script.\<newline>''"

subsection \<open>Reading a command line and a message\<close>

text \<open>
  The words of a command line, split at blanks: \<open>cur\<close> is the word being read. This is
  how the shell that \<^verbatim>\<open>system\<close> starts cuts a line that has no quotes and no special
  characters into the command and its arguments.
\<close>

primrec split_words :: "string \<Rightarrow> string \<Rightarrow> string list" where
  "split_words cur [] = (if cur = [] then [] else [cur])"
| "split_words cur (c # cs) =
     (if c = CHR '' ''
      then (if cur = [] then split_words [] cs else cur # split_words [] cs)
      else split_words (cur @ [c]) cs)"

text \<open>The number a message shows: the decimal value of its digits, read left to right.\<close>

definition digit :: "char \<Rightarrow> nat option" where
  "digit = map_of (zip ''0123456789'' [0, 1, 2, 3, 4, 5, 6, 7, 8, 9])"

fun number_in :: "nat \<Rightarrow> string \<Rightarrow> nat" where
  "number_in a [] = a"
| "number_in a (c # cs) =
     (case digit c of None \<Rightarrow> number_in a cs | Some d \<Rightarrow> number_in (10 * a + d) cs)"

section \<open>What each step does to the world\<close>

lemma file_ops_append: "file_ops (xs @ ys) = file_ops xs @ file_ops ys"
  by (induction xs rule: file_ops.induct) simp_all

lemma commands_append: "commands (xs @ ys) = commands xs @ commands ys"
  by (induction xs rule: commands.induct) simp_all

lemma sleeps_append: "sleeps (xs @ ys) = sleeps xs @ sleeps ys"
  by (induction xs rule: sleeps.induct) simp_all

lemma messages_append: "messages (xs @ ys) = messages xs @ messages ys"
  by (induction xs rule: messages.induct) simp_all

lemma c_remove_status: "(fst (c_remove p w) = 0) = (files w p = Removable)"
  by (simp add: c_remove_def split: file_state.split)

lemma state_reset_trace:
  "trace (state_reset t w) =
     trace w @ [Remove (csvFilename_of t),
       Stdout (if files w (csvFilename_of t) = Removable
               then ''Deleted old CSV file: '' @ csvFilename_of t @ ''\<newline>''
               else ''No CSV file to delete or failed to delete.\<newline>'')]"
  by (simp add: state_reset_def c_remove_def cout_def split: file_state.split)

lemma state_reset_calls: "calls (state_reset t w) = calls w"
  by (simp add: state_reset_def c_remove_def cout_def split: file_state.split)

lemma state_reset_files:
  "files (state_reset t w) =
     (if files w (csvFilename_of t) = Removable then (files w)(csvFilename_of t := Absent)
      else files w)"
  by (simp add: state_reset_def c_remove_def cout_def split: file_state.split)

lemma announce_trace:
  "trace (announce t w) =
     trace w @ [Stdout (''Starting stock data scraper for '' @ t @ '' every 60 seconds...\<newline>'')]"
  by (simp add: announce_def cout_def)

lemma announce_calls: "calls (announce t w) = calls w"
  by (simp add: announce_def cout_def)

lemma report_status_trace:
  "trace (report_status r w) =
     trace w @ [if r = 0 then Stdout ''Stock data scraped successfully.\<newline>''
                else Stderr ''Failed to run the Python script.\<newline>'']"
  by (simp add: report_status_def cout_def cerr_def)

lemma cycle_trace:
  "trace (cycle sp t w) =
     trace w @
     [Stdout (''Running Python scraper for '' @ t @ ''...\<newline>''),
      System (''python scraper.py '' @ t),
      (if fst (sp (calls w) (''python scraper.py '' @ t) (files w)) = 0
       then Stdout ''Stock data scraped successfully.\<newline>''
       else Stderr ''Failed to run the Python script.\<newline>''),
      Stdout ''Waiting 15 seconds...\<newline>'',
      Sleep 15]"
  by (simp add: cycle_def system_def report_status_def cout_def cerr_def sleep_for_def
      Let_def case_prod_beta)

lemma cycle_calls: "calls (cycle sp t w) = Suc (calls w)"
  by (simp add: cycle_def system_def report_status_def cout_def cerr_def sleep_for_def
      Let_def case_prod_beta)

lemma cycle_files:
  "files (cycle sp t w) = snd (sp (calls w) (''python scraper.py '' @ t) (files w))"
  by (simp add: cycle_def system_def report_status_def cout_def cerr_def sleep_for_def
      Let_def case_prod_beta)

lemma cycles_calls: "calls (cycles n sp t w) = calls w + n"
  by (induction n arbitrary: w) (simp_all add: cycle_calls)

lemma cycles_file_ops: "file_ops (trace (cycles n sp t w)) = file_ops (trace w)"
  by (induction n arbitrary: w) (simp_all add: cycle_trace file_ops_append)

lemma cycles_commands:
  "commands (trace (cycles n sp t w)) = commands (trace w) @ replicate n (''python scraper.py '' @ t)"
  by (induction n arbitrary: w)
    (simp_all add: cycle_trace commands_append replicate_app_Cons_same)

lemma cycles_sleeps: "sleeps (trace (cycles n sp t w)) = sleeps (trace w) @ replicate n 15"
  by (induction n arbitrary: w)
    (simp_all add: cycle_trace sleeps_append replicate_app_Cons_same)

lemma cycles_prefix: "take (length (trace w)) (trace (cycles n sp t w)) = trace w"
proof (induction n arbitrary: w)
  case 0
  show ?case by simp
next
  case (Suc n)
  have "take (length (trace w)) (trace (cycles (Suc n) sp t w)) =
        take (length (trace w)) (take (length (trace (cycle sp t w))) (trace (cycles n sp t (cycle sp t w))))"
    by (simp add: cycle_trace min_def)
  also have "\<dots> = take (length (trace w)) (trace (cycle sp t w))"
    by (simp only: Suc.IH)
  also have "\<dots> = trace w"
    by (simp add: cycle_trace)
  finally show ?case .
qed

lemma cycles_add: "cycles (m + n) sp t w = cycles n sp t (cycles m sp t w)"
  by (induction m arbitrary: w) simp_all

lemma cycles_Suc_right: "cycles (Suc n) sp t w = cycle sp t (cycles n sp t w)"
  using cycles_add [of n 1 sp t w] by simp

lemma supervisor_loop_Some_False: "supervisor_loop sp t w = Some w' \<Longrightarrow> False"
  by (rule supervisor_loop.raw_induct [where P = "\<lambda>_ _ _ _. False"])

lemma supervisor_loop_None: "supervisor_loop sp t w = None"
  using supervisor_loop_Some_False [of sp t w] by (cases "supervisor_loop sp t w") auto

lemma new_events_append: "trace w' = trace w @ es \<Longrightarrow> new_events w w' = es"
  by (simp add: new_events_def)

lemma cycles_trace_split:
  "trace (cycles n sp t w) = trace w @ new_events w (cycles n sp t w)"
proof -
  have "trace (cycles n sp t w) =
        take (length (trace w)) (trace (cycles n sp t w)) @
        drop (length (trace w)) (trace (cycles n sp t w))"
    by simp
  then show ?thesis
    by (simp only: cycles_prefix new_events_def)
qed

lemma cycle_new_events:
  "new_events w (cycle sp t w) =
     [Stdout (''Running Python scraper for '' @ t @ ''...\<newline>''),
      System (''python scraper.py '' @ t),
      (if fst (sp (calls w) (''python scraper.py '' @ t) (files w)) = 0
       then Stdout ''Stock data scraped successfully.\<newline>''
       else Stderr ''Failed to run the Python script.\<newline>''),
      Stdout ''Waiting 15 seconds...\<newline>'',
      Sleep 15]"
  by (rule new_events_append) (rule cycle_trace)

lemma state_reset_new_events:
  "new_events w (state_reset t w) =
     [Remove (csvFilename_of t),
      Stdout (if files w (csvFilename_of t) = Removable
              then ''Deleted old CSV file: '' @ csvFilename_of t @ ''\<newline>''
              else ''No CSV file to delete or failed to delete.\<newline>'')]"
  by (rule new_events_append) (rule state_reset_trace)

lemma startup_trace:
  "trace (announce t (state_reset t w)) =
     trace w @
     [Remove (csvFilename_of t),
      Stdout (if files w (csvFilename_of t) = Removable
              then ''Deleted old CSV file: '' @ csvFilename_of t @ ''\<newline>''
              else ''No CSV file to delete or failed to delete.\<newline>''),
      Stdout (''Starting stock data scraper for '' @ t @ '' every 60 seconds...\<newline>'')]"
  by (simp add: announce_trace state_reset_trace)

lemma run_new_events:
  "new_events w (run sp t n w) =
     new_events w (announce t (state_reset t w)) @
     new_events (announce t (state_reset t w)) (run sp t n w)"
proof -
  let ?s = "announce t (state_reset t w)"
  have "trace (run sp t n w) = trace ?s @ new_events ?s (run sp t n w)"
    unfolding run_def by (rule cycles_trace_split)
  moreover have "trace ?s = trace w @ new_events w ?s"
    by (simp add: startup_trace new_events_def)
  ultimately have "trace (run sp t n w) = trace w @ (new_events w ?s @ new_events ?s (run sp t n w))"
    by simp
  then show ?thesis
    by (rule new_events_append)
qed

lemma cycles_new_file_ops: "file_ops (new_events w (cycles n sp t w)) = []"
proof -
  have "file_ops (trace (cycles n sp t w)) =
        file_ops (trace w) @ file_ops (new_events w (cycles n sp t w))"
    using cycles_trace_split [of n sp t w] by (metis file_ops_append)
  then show ?thesis
    by (simp add: cycles_file_ops)
qed

lemma cycles_new_commands:
  "commands (new_events w (cycles n sp t w)) = replicate n (''python scraper.py '' @ t)"
proof -
  have "commands (trace (cycles n sp t w)) =
        commands (trace w) @ commands (new_events w (cycles n sp t w))"
    using cycles_trace_split [of n sp t w] by (metis commands_append)
  then show ?thesis
    by (simp add: cycles_commands)
qed

lemma cycles_new_sleeps: "sleeps (new_events w (cycles n sp t w)) = replicate n 15"
proof -
  have "sleeps (trace (cycles n sp t w)) =
        sleeps (trace w) @ sleeps (new_events w (cycles n sp t w))"
    using cycles_trace_split [of n sp t w] by (metis sleeps_append)
  then show ?thesis
    by (simp add: cycles_sleeps)
qed

lemma startup_new_events:
  "new_events w (announce t (state_reset t w)) =
     [Remove (csvFilename_of t),
      Stdout (if files w (csvFilename_of t) = Removable
              then ''Deleted old CSV file: '' @ csvFilename_of t @ ''\<newline>''
              else ''No CSV file to delete or failed to delete.\<newline>''),
      Stdout (''Starting stock data scraper for '' @ t @ '' every 60 seconds...\<newline>'')]"
  by (rule new_events_append) (rule startup_trace)

lemma cycles_Suc_new_events:
  "new_events w (cycles (Suc n) sp t w) =
     new_events w (cycle sp t w) @ new_events (cycle sp t w) (cycles n sp t (cycle sp t w))"
proof -
  have "trace (cycles (Suc n) sp t w) =
        trace (cycle sp t w) @ new_events (cycle sp t w) (cycles n sp t (cycle sp t w))"
    using cycles_trace_split [of n sp t "cycle sp t w"] by simp
  then have "trace (cycles (Suc n) sp t w) =
        trace w @ (new_events w (cycle sp t w) @
                   new_events (cycle sp t w) (cycles n sp t (cycle sp t w)))"
    by (simp add: cycle_trace cycle_new_events)
  then show ?thesis
    by (rule new_events_append)
qed

lemma cycles_messages_count:
  "count_list (messages (trace (cycles n sp t w)))
     (''Starting stock data scraper for '' @ t @ '' every 60 seconds...\<newline>'') =
   count_list (messages (trace w))
     (''Starting stock data scraper for '' @ t @ '' every 60 seconds...\<newline>'')"
  by (induction n arbitrary: w) (simp_all add: cycle_trace messages_append)

lemma run_loop_events:
  "new_events (announce t (state_reset t w)) (run sp t n w) =
     new_events (announce t (state_reset t w)) (cycles n sp t (announce t (state_reset t w)))"
  by (simp add: run_def)

lemma run_file_ops: "file_ops (new_events w (run sp t n w)) = [csvFilename_of t]"
  by (simp add: run_new_events run_loop_events startup_new_events file_ops_append
      cycles_new_file_ops)

lemma run_commands:
  "commands (new_events w (run sp t n w)) = replicate n (''python scraper.py '' @ t)"
  by (simp add: run_new_events run_loop_events startup_new_events commands_append
      cycles_new_commands)

lemma run_sleeps: "sleeps (new_events w (run sp t n w)) = replicate n 15"
  by (simp add: run_new_events run_loop_events startup_new_events sleeps_append
      cycles_new_sleeps)

lemma run_startup_events:
  "take 3 (new_events w (run sp t n w)) =
     [Remove (csvFilename_of t),
      Stdout (if files w (csvFilename_of t) = Removable
              then ''Deleted old CSV file: '' @ csvFilename_of t @ ''\<newline>''
              else ''No CSV file to delete or failed to delete.\<newline>''),
      Stdout (''Starting stock data scraper for '' @ t @ '' every 60 seconds...\<newline>'')]"
  by (simp add: run_new_events startup_new_events)

lemma run_first_event: "take 1 (new_events w (run sp t n w)) = [Remove (csvFilename_of t)]"
  by (simp add: run_new_events startup_new_events)

lemma run_first_cycle_events:
  "take 5 (new_events w (run sp t (Suc n) w)) =
     [Remove (csvFilename_of t),
      Stdout (if files w (csvFilename_of t) = Removable
              then ''Deleted old CSV file: '' @ csvFilename_of t @ ''\<newline>''
              else ''No CSV file to delete or failed to delete.\<newline>''),
      Stdout (''Starting stock data scraper for '' @ t @ '' every 60 seconds...\<newline>''),
      Stdout (''Running Python scraper for '' @ t @ ''...\<newline>''),
      System (''python scraper.py '' @ t)]"
  by (simp add: run_new_events run_loop_events startup_new_events cycles_Suc_new_events
      cycle_new_events del: cycles.simps)

lemma run_announce_count:
  "count_list (messages (new_events w (run sp t n w)))
     (''Starting stock data scraper for '' @ t @ '' every 60 seconds...\<newline>'') = 1"
proof -
  let ?a = "''Starting stock data scraper for '' @ t @ '' every 60 seconds...\<newline>''"
  let ?s = "announce t (state_reset t w)"
  have "trace (cycles n sp t ?s) = trace ?s @ new_events ?s (cycles n sp t ?s)"
    by (rule cycles_trace_split)
  then have "count_list (messages (trace (cycles n sp t ?s))) ?a =
        count_list (messages (trace ?s)) ?a +
        count_list (messages (new_events ?s (cycles n sp t ?s))) ?a"
    by (metis messages_append count_list_append)
  then have "count_list (messages (trace ?s)) ?a =
        count_list (messages (trace ?s)) ?a +
        count_list (messages (new_events ?s (cycles n sp t ?s))) ?a"
    by (simp only: cycles_messages_count)
  then have loop: "count_list (messages (new_events ?s (cycles n sp t ?s))) ?a = 0"
    by linarith
  have "count_list (messages (new_events w ?s)) ?a = 1"
    by (simp add: startup_new_events)
  with loop show ?thesis
    by (simp add: run_new_events run_loop_events messages_append)
qed

lemma run_calls: "calls (run sp t n w) = calls w + n"
  by (simp add: run_def cycles_calls announce_calls state_reset_calls)

lemma cycle_last: "last (trace (cycle sp t w)) = Sleep 15"
  by (simp add: cycle_trace)

section \<open>Two runs, step by step\<close>

text \<open>
  The ticker's file is there and can be deleted; the first invocation of the scraper fails
  and the second succeeds. The events of startup and of two cycles:
\<close>

lemma scenario_two_cycles:
  "trace (run (\<lambda>k cmd fs. (if k = 0 then 1 else 0, fs)) ticker (Suc (Suc 0))
            \<lparr>files = (\<lambda>p. Absent)(''SPY_stock_data.csv'' := Removable), trace = [], calls = 0\<rparr>) =
     [Remove ''SPY_stock_data.csv'',
      Stdout ''Deleted old CSV file: SPY_stock_data.csv\<newline>'',
      Stdout ''Starting stock data scraper for SPY every 60 seconds...\<newline>'',
      Stdout ''Running Python scraper for SPY...\<newline>'',
      System ''python scraper.py SPY'',
      Stderr ''Failed to run the Python script.\<newline>'',
      Stdout ''Waiting 15 seconds...\<newline>'',
      Sleep 15,
      Stdout ''Running Python scraper for SPY...\<newline>'',
      System ''python scraper.py SPY'',
      Stdout ''Stock data scraped successfully.\<newline>'',
      Stdout ''Waiting 15 seconds...\<newline>'',
      Sleep 15]"
  by (simp add: run_def cycle_def state_reset_def announce_def report_status_def system_def
      c_remove_def cout_def cerr_def sleep_for_def csvFilename_of_def ticker_def)

text \<open>Cleaning up a second time, with nothing in between, finds no file to delete.\<close>

lemma scenario_second_run:
  "new_events (state_reset ticker w) (state_reset ticker (state_reset ticker w)) =
     [Remove ''SPY_stock_data.csv'',
      Stdout ''No CSV file to delete or failed to delete.\<newline>'']"
  by (simp add: state_reset_new_events state_reset_files csvFilename_of_def ticker_def)

section \<open>The properties of the specification\<close>

text \<open>
  Claim C1. The branch of a cycle reports the outcome that the specification's
  classification gives for the value \<^verbatim>\<open>system\<close> returned, and for nothing else: the third
  event of every cycle is \<open>outcome_event (classify r)\<close> for the status \<open>r\<close> of this cycle's
  invocation, whatever the world, the ticker and the cycles before. The status \<open>0\<close> is
  Success and every other value is Failure, among them the \<open>-1\<close> of a command that could
  not be launched. The two reports differ, so the outcome can be read off the trace.
\<close>

theorem cycle_outcome_classification:
  "new_events w (cycle sp t w) ! 2 =
     outcome_event (classify (fst (sp (calls w) (''python scraper.py '' @ t) (files w))))
   \<and> report_status r w = w\<lparr>trace := trace w @ [outcome_event (classify r)]\<rparr>
   \<and> (classify r = Success) = (r = 0)
   \<and> (classify r = Failure) = (r \<noteq> 0)
   \<and> classify (- 1) = Failure
   \<and> outcome_event Success \<noteq> outcome_event Failure"
  by (simp add: cycle_new_events classify_def report_status_def cout_def cerr_def)

text \<open>
  Claim C2. For every ticker \<open>t\<close> and every state \<open>st\<close> of the file at its path (absent,
  removable or undeletable), the cleanup at startup calls \<^verbatim>\<open>remove\<close> and writes one line to
  standard output, and nothing else: \<open>state_reset\<close> is a total function into worlds, with no
  error among its results. A run then goes on with the line printed before the loop and
  with the first cycle, which announces and starts the subprocess.
\<close>

theorem state_reset_never_fails:
  "(let w0 = w\<lparr>files := (files w)(csvFilename_of t := st)\<rparr> in
      new_events w0 (state_reset t w0) =
        [Remove (csvFilename_of t),
         Stdout (if st = Removable
                 then ''Deleted old CSV file: '' @ csvFilename_of t @ ''\<newline>''
                 else ''No CSV file to delete or failed to delete.\<newline>'')]
      \<and> length (messages (new_events w0 (state_reset t w0))) = 1
      \<and> take 5 (new_events w0 (run sp t (Suc n) w0)) =
        [Remove (csvFilename_of t),
         Stdout (if st = Removable
                 then ''Deleted old CSV file: '' @ csvFilename_of t @ ''\<newline>''
                 else ''No CSV file to delete or failed to delete.\<newline>''),
         Stdout (''Starting stock data scraper for '' @ t @ '' every 60 seconds...\<newline>''),
         Stdout (''Running Python scraper for '' @ t @ ''...\<newline>''),
         System (''python scraper.py '' @ t)])"
  by (simp add: Let_def state_reset_new_events run_first_cycle_events)

text \<open>
  Claim C3. \<^verbatim>\<open>remove\<close> returns \<open>0\<close> exactly when the file was there and could be deleted.
  In that case the one line of the cleanup is \<open>Deleted old CSV file: \<close> followed by the
  path; in every other case (no file, or a file that cannot be deleted) it is the line
  \<open>No CSV file to delete or failed to delete.\<close> The two lines are different texts for every
  ticker.
\<close>

theorem state_reset_message:
  "(fst (c_remove (csvFilename_of t) w) = 0) = (files w (csvFilename_of t) = Removable)
   \<and> new_events w (state_reset t w) =
       [Remove (csvFilename_of t),
        Stdout (if fst (c_remove (csvFilename_of t) w) = 0
                then ''Deleted old CSV file: '' @ csvFilename_of t @ ''\<newline>''
                else ''No CSV file to delete or failed to delete.\<newline>'')]
   \<and> ''Deleted old CSV file: '' @ csvFilename_of t @ ''\<newline>'' \<noteq>
       ''No CSV file to delete or failed to delete.\<newline>''"
  by (simp add: c_remove_status state_reset_new_events)

text \<open>
  Claim C4. The path of the CSV file is the ticker followed by the fixed suffix
  \<open>_stock_data.csv\<close>, whatever the ticker is; for the ticker \<open>SPY\<close> of \<^verbatim>\<open>main\<close> it is
  \<open>SPY_stock_data.csv\<close>, and this is the one path that the cleanup at startup hands to
  \<^verbatim>\<open>remove\<close>.
\<close>

theorem csvFilename_SPY:
  "csvFilename_of t = t @ ''_stock_data.csv''
   \<and> csvFilename = ''SPY_stock_data.csv''
   \<and> file_ops (new_events w (state_reset ticker w)) = [''SPY_stock_data.csv'']"
  by (simp add: csvFilename_def csvFilename_of_def ticker_def state_reset_new_events)

text \<open>
  Claim C5. Of all the events of a run of any number \<open>n\<close> of cycles, one touches a file: the
  \<^verbatim>\<open>remove\<close> of the CSV path, and it is the first event of the run, before the first cycle.
  A cycle makes no file call of its own, and the files it leaves are those the subprocess
  has left: what the subprocess does to them is the environment's \<open>sp\<close>, not an operation
  of the supervisor.
\<close>

theorem artifact_touched_once:
  "file_ops (new_events w (run sp t n w)) = [csvFilename_of t]
   \<and> take 1 (new_events w (run sp t n w)) = [Remove (csvFilename_of t)]
   \<and> file_ops (new_events w' (cycle sp t w')) = []
   \<and> files (cycle sp t w') = snd (sp (calls w') (''python scraper.py '' @ t) (files w'))"
  by (simp add: run_file_ops run_first_event cycle_new_events cycle_files del: One_nat_def)

text \<open>
  Claim C6. A cycle adds five events to the trace, in this order: the line that announces
  the scraper for the ticker, the call of \<^verbatim>\<open>system\<close> with the command line
  \<open>python scraper.py\<close> followed by a blank and the ticker, the report of the status this call
  returned (the success line on standard output for \<open>0\<close>, the failure line on standard error
  otherwise), the line that announces the pause, and the pause of 15 seconds. For the
  ticker of \<^verbatim>\<open>main\<close> the command line is \<open>python scraper.py SPY\<close>, whose only word after the
  script is the ticker.
\<close>

theorem cycle_steps_in_order:
  "new_events w (cycle sp t w) =
     [Stdout (''Running Python scraper for '' @ t @ ''...\<newline>''),
      System (''python scraper.py '' @ t),
      (if fst (system sp (''python scraper.py '' @ t)
                (cout (''Running Python scraper for '' @ t @ ''...\<newline>'') w)) = 0
       then Stdout ''Stock data scraped successfully.\<newline>''
       else Stderr ''Failed to run the Python script.\<newline>''),
      Stdout ''Waiting 15 seconds...\<newline>'',
      Sleep 15]
   \<and> commands (new_events w (cycle sp ticker w)) = [''python scraper.py SPY'']
   \<and> split_words [] ''python scraper.py SPY'' = [''python'', ''scraper.py'', ticker]"
  by (simp add: cycle_new_events system_def cout_def case_prod_beta ticker_def)

text \<open>
  Claim C7. Whatever the subprocess returns, cycle after cycle, \<^verbatim>\<open>main\<close> never reaches its
  \<^verbatim>\<open>return 0\<close> and the loop is never left. The loop has one transition, \<open>cycle\<close>, which is
  defined in every world: the world after \<open>n + 1\<close> cycles is the cycle run in the world after
  \<open>n\<close>, it ends with the pause, and after \<open>n\<close> cycles the subprocess has been started \<open>n\<close>
  times, for every \<open>n\<close>. No count of failures is kept that could stop it.
\<close>

theorem supervisor_never_terminates:
  "main sp w = None
   \<and> supervisor_loop sp t w = None
   \<and> cycles (Suc n) sp t w = cycle sp t (cycles n sp t w)
   \<and> last (trace (cycles (Suc n) sp t w)) = Sleep 15
   \<and> calls (cycles n sp t w) = calls w + n
   \<and> calls (run sp ticker n w) = calls w + n
   \<and> commands (new_events w (cycles n sp t w)) = replicate n (''python scraper.py '' @ t)"
  by (simp add: main_def main_from_def supervisor_loop_None cycles_Suc_right cycles_calls
      cycles_new_commands cycle_last run_calls del: cycles.simps)

text \<open>
  Claim C8. Every cycle pauses once, for 15 seconds, as its last step. Two cycles that
  start in the same world and differ in the subprocess alone (\<open>sp\<close> and \<open>sp'\<close>, one returning
  \<open>0\<close> and the other not, say) pause for the same time; the report of the status adds no
  pause of its own, and \<open>n\<close> cycles make \<open>n\<close> pauses of 15 seconds.
\<close>

theorem pause_independent_of_outcome:
  "sleeps (new_events w (cycle sp t w)) = [15]
   \<and> sleeps (new_events w (cycle sp' t w)) = sleeps (new_events w (cycle sp t w))
   \<and> last (trace (cycle sp t w)) = Sleep 15
   \<and> sleeps (new_events w (report_status r w)) = []
   \<and> sleeps (new_events w (cycles n sp t w)) = replicate n 15"
  by (simp add: cycle_new_events cycle_trace cycles_new_sleeps
      new_events_append [OF report_status_trace])

text \<open>
  Claim C9. In a run of any number \<open>n\<close> of cycles for the ticker \<open>t\<close>, the path removed at
  startup is the one derived from \<open>t\<close>, and each of the \<open>n\<close> command lines handed to
  \<^verbatim>\<open>system\<close> ends in the same \<open>t\<close>. For \<^verbatim>\<open>main\<close>, the ticker is \<open>SPY\<close> in both places.
\<close>

theorem identifier_never_changes:
  "file_ops (new_events w (run sp t n w)) = [csvFilename_of t]
   \<and> commands (new_events w (run sp t n w)) = replicate n (''python scraper.py '' @ t)
   \<and> file_ops (new_events w (run sp ticker n w)) = [''SPY'' @ ''_stock_data.csv'']
   \<and> commands (new_events w (run sp ticker n w)) = replicate n (''python scraper.py '' @ ''SPY'')"
  by (simp add: run_file_ops run_commands csvFilename_of_def ticker_def)

text \<open>
  Claim C10. The third event of every run of \<^verbatim>\<open>main\<close>, after the two of the cleanup and
  before the first cycle, is the line \<open>Starting stock data scraper for SPY every 60
  seconds...\<close>, and no later line of the run repeats it. The number this line shows is 60,
  while each of the pauses of the run lasts 15 seconds: the interval announced is not the
  pause that is made.
\<close>

theorem announced_interval_differs:
  "take 3 (new_events w (run sp ticker n w)) =
     [Remove csvFilename,
      Stdout (if files w csvFilename = Removable
              then ''Deleted old CSV file: SPY_stock_data.csv\<newline>''
              else ''No CSV file to delete or failed to delete.\<newline>''),
      Stdout ''Starting stock data scraper for SPY every 60 seconds...\<newline>'']
   \<and> count_list (messages (new_events w (run sp ticker n w)))
        ''Starting stock data scraper for SPY every 60 seconds...\<newline>'' = 1
   \<and> number_in 0 ''Starting stock data scraper for SPY every 60 seconds...\<newline>'' = 60
   \<and> sleeps (new_events w (run sp ticker n w)) = replicate n 15
   \<and> number_in 0 ''Starting stock data scraper for SPY every 60 seconds...\<newline>'' \<noteq> 15"
  by (simp add: run_startup_events run_sleeps csvFilename_def csvFilename_of_def digit_def
      run_announce_count [of w sp ticker n, unfolded ticker_def, simplified] ticker_def)

end
